theory Spec2Isabelle
  imports Main "HOL-Library.Finite_Map"
begin

section \<open>Python values used by the pipeline\<close>

text \<open>
  \<open>DocumentProcessor.process\<close> (document_processor.py) shuttles dynamically typed values
  between its collaborators: it tests them for truthiness, calls \<open>.get\<close> on them, checks
  \<open>isinstance(_, dict)\<close> and \<open>isinstance(_, bytes)\<close>.  The values are therefore kept
  dynamically typed.  A \<open>str\<close> is a \<open>string\<close> (one \<open>char\<close> per character, so that
  \<open>length\<close> is Python's \<open>len\<close>), \<open>bytes\<close> is a list of 8-bit characters, a \<open>dict\<close> with
  string keys is a finite map.
\<close>

datatype pyval =
    PNone
  | PBool bool
  | PInt int
  | PStr string
  | PBytes string
  | PList "pyval list"
  | PDict "(string, pyval) fmap"

type_synonym pydict = "(string, pyval) fmap"

text \<open>Python's truth value testing (\<open>bool(v)\<close>).\<close>

fun truthy :: "pyval \<Rightarrow> bool" where
  "truthy PNone = False"
| "truthy (PBool b) = b"
| "truthy (PInt n) = (n \<noteq> 0)"
| "truthy (PStr s) = (s \<noteq> [])"
| "truthy (PBytes s) = (s \<noteq> [])"
| "truthy (PList xs) = (xs \<noteq> [])"
| "truthy (PDict m) = (m \<noteq> fmempty)"

text \<open>\<open>type(v).__name__\<close>, as it appears in the message of an \<open>AttributeError\<close>.\<close>

fun type_name :: "pyval \<Rightarrow> string" where
  "type_name PNone = ''NoneType''"
| "type_name (PBool b) = ''bool''"
| "type_name (PInt n) = ''int''"
| "type_name (PStr s) = ''str''"
| "type_name (PBytes s) = ''bytes''"
| "type_name (PList xs) = ''list''"
| "type_name (PDict m) = ''dict''"

text \<open>
  An optional string is what the text extractors hand back (\<open>None\<close> or a \<open>str\<close>; the
  comment at line 41 of the source says "empty or None").  \<open>opt_truthy\<close> is its truth
  value.
\<close>

definition opt_truthy :: "string option \<Rightarrow> bool" where
  "opt_truthy t = (case t of None \<Rightarrow> False | Some s \<Rightarrow> s \<noteq> [])"

text \<open>\<open>d.get(k, default)\<close> on a dict.\<close>

definition dict_get :: "pydict \<Rightarrow> string \<Rightarrow> pyval \<Rightarrow> pyval" where
  "dict_get d k dflt = (case fmlookup d k of None \<Rightarrow> dflt | Some v \<Rightarrow> v)"

text \<open>Python's \<open>a or b\<close>: the first operand when it is truthy, the second otherwise.\<close>

definition py_or :: "pyval \<Rightarrow> pyval \<Rightarrow> pyval" where
  "py_or a b = (if truthy a then a else b)"

section \<open>Exceptions\<close>

text \<open>
  The handler of \<open>process\<close> is \<open>except Exception as e\<close> and evaluates \<open>str(e)\<close>.  An
  exception is modelled by the two things the handler looks at: whether its class derives
  from \<open>Exception\<close> (\<open>KeyboardInterrupt\<close>, \<open>SystemExit\<close> and \<open>GeneratorExit\<close> derive
  from \<open>BaseException\<close> only), and what \<open>str(e)\<close> does: it returns a message, or the
  \<open>__str__\<close> of the exception's class raises an exception of its own.
\<close>

datatype exc_class = ExceptionSubclass | BaseExceptionOnly

datatype exn = Raised (exc_class: exc_class) (exc_str: "exn + string")

text \<open>The \<open>AttributeError\<close> of a method call on a value whose type lacks the method.\<close>

definition quoted :: "string \<Rightarrow> string" where
  "quoted s = [CHR 0x27] @ s @ [CHR 0x27]"

definition attribute_error :: "pyval \<Rightarrow> string \<Rightarrow> exn" where
  "attribute_error v attr =
     Raised ExceptionSubclass
       (Inr (quoted (type_name v) @ '' object has no attribute '' @ quoted attr))"

text \<open>The \<open>KeyError\<close> of a subscript with a missing key; \<open>str(e)\<close> is the quoted key.\<close>

definition key_error :: "string \<Rightarrow> exn" where
  "key_error k = Raised ExceptionSubclass (Inr (quoted k))"

section \<open>Collaborators and the call log\<close>

text \<open>
  The seven functions imported from \<open>utils.*\<close> are outside the pipeline's source.  They
  are parameters of the model.  Each one reads and changes the outside world (files, the
  remote analyzer), so it takes a world \<open>'w\<close> and returns the new one, and it either
  returns a value or raises.  \<open>bytes_decode\<close> is \<open>bytes.decode('utf-8')\<close>.
\<close>

record ('i, 'w) env =
  get_document_type :: "string \<Rightarrow> 'w \<Rightarrow> (exn + string) \<times> 'w"
  extract_text_from_document :: "string \<Rightarrow> string \<Rightarrow> 'w \<Rightarrow> (exn + string option) \<times> 'w"
  perform_ocr :: "string \<Rightarrow> string \<Rightarrow> 'w \<Rightarrow> (exn + string option) \<times> 'w"
  extract_images :: "string \<Rightarrow> string \<Rightarrow> 'w \<Rightarrow> (exn + 'i list) \<times> 'w"
  extract_faces :: "'i \<Rightarrow> 'w \<Rightarrow> (exn + pyval list) \<times> 'w"
  analyze_document :: "string \<Rightarrow> 'w \<Rightarrow> (exn + pyval) \<times> 'w"
  analyze_image_content :: "pyval \<Rightarrow> 'w \<Rightarrow> (exn + pyval) \<times> 'w"
  bytes_decode :: "string \<Rightarrow> exn + string"

text \<open>Every call of a collaborator is logged with its arguments, in call order.\<close>

datatype 'i call =
    is_GetDocumentType: GetDocumentType string
  | is_ExtractText: ExtractText string string
  | is_PerformOcr: PerformOcr string string
  | is_ExtractImages: ExtractImages string string
  | is_ExtractFaces: ExtractFaces 'i
  | is_AnalyzeDocument: AnalyzeDocument string
  | is_AnalyzeImageContent: AnalyzeImageContent pyval

record ('i, 'w) pstate =
  world :: 'w
  calls :: "'i call list"

type_synonym ('a, 'i, 'w) comp = "('i, 'w) pstate \<Rightarrow> (exn + 'a) \<times> ('i, 'w) pstate"

definition ret :: "'a \<Rightarrow> ('a, 'i, 'w) comp" where
  "ret x s = (Inr x, s)"

definition throw :: "exn \<Rightarrow> ('a, 'i, 'w) comp" where
  "throw e s = (Inl e, s)"

text \<open>Sequencing: an exception of the first computation skips the second.\<close>

definition and_then :: "('a, 'i, 'w) comp \<Rightarrow> ('a \<Rightarrow> ('b, 'i, 'w) comp) \<Rightarrow> ('b, 'i, 'w) comp" where
  "and_then m f s = (case m s of (Inl e, s') \<Rightarrow> (Inl e, s') | (Inr x, s') \<Rightarrow> f x s')"

definition invoke :: "'i call \<Rightarrow> ('w \<Rightarrow> (exn + 'a) \<times> 'w) \<Rightarrow> ('a, 'i, 'w) comp" where
  "invoke ev f s = (case f (world s) of (r, w') \<Rightarrow> (r, \<lparr>world = w', calls = calls s @ [ev]\<rparr>))"

section \<open>The pipeline, stage by stage\<close>

text \<open>Lines 34--38: type detection, then native text extraction.  Logging has no effect.\<close>

definition detect_and_extract :: "('i, 'w) env \<Rightarrow> string \<Rightarrow> (string \<times> string option, 'i, 'w) comp" where
  "detect_and_extract env file_path =
     and_then (invoke (GetDocumentType file_path) (get_document_type env file_path)) (\<lambda>doc_type.
     and_then (invoke (ExtractText file_path doc_type)
                 (extract_text_from_document env file_path doc_type)) (\<lambda>text_content.
     ret (doc_type, text_content)))"

text \<open>
  Line 43: \<open>(not text_content or len(text_content) < 50) and doc_type in ['image', 'pdf']\<close>.
  \<open>len\<close> is only reached for a non-empty string.
\<close>

definition ocr_needed :: "string \<Rightarrow> string option \<Rightarrow> bool" where
  "ocr_needed doc_type text_content =
     ((\<not> opt_truthy text_content \<or> (case text_content of None \<Rightarrow> False | Some t \<Rightarrow> length t < 50))
      \<and> doc_type \<in> set [''image'', ''pdf''])"

text \<open>Lines 47--52: the f-string \<open>f"{text_content}\n\n{ocr_text}"\<close>, or the OCR text alone.\<close>

definition merge_ocr :: "string option \<Rightarrow> string option \<Rightarrow> string option" where
  "merge_ocr text_content ocr_text =
     (if opt_truthy ocr_text then
        (if opt_truthy text_content then
           (case (text_content, ocr_text) of
              (Some t, Some oc) \<Rightarrow> Some (t @ [CHR 0x0A, CHR 0x0A] @ oc)
            | _ \<Rightarrow> ocr_text)
         else ocr_text)
      else text_content)"

text \<open>Lines 43--54.\<close>

definition ocr_stage ::
  "('i, 'w) env \<Rightarrow> string \<Rightarrow> string \<Rightarrow> string option \<Rightarrow> (string option, 'i, 'w) comp" where
  "ocr_stage env file_path doc_type text_content =
     (if ocr_needed doc_type text_content then
        and_then (invoke (PerformOcr file_path doc_type) (perform_ocr env file_path doc_type))
          (\<lambda>ocr_text. ret (merge_ocr text_content ocr_text))
      else ret text_content)"

text \<open>Lines 34--54: the text the rest of the pipeline works with.\<close>

definition text_with_ocr :: "('i, 'w) env \<Rightarrow> string \<Rightarrow> (string \<times> string option, 'i, 'w) comp" where
  "text_with_ocr env file_path =
     and_then (detect_and_extract env file_path) (\<lambda>(doc_type, text_content).
     and_then (ocr_stage env file_path doc_type text_content) (\<lambda>text_content.
     ret (doc_type, text_content)))"

text \<open>Lines 63--65: \<open>for img in images: faces = extract_faces(img); face_images.extend(faces)\<close>.\<close>

fun extract_all_faces ::
  "('i, 'w) env \<Rightarrow> 'i list \<Rightarrow> pyval list \<Rightarrow> (pyval list, 'i, 'w) comp" where
  "extract_all_faces env [] face_images s = (Inr face_images, s)"
| "extract_all_faces env (img # imgs) face_images s =
     (case invoke (ExtractFaces img) (extract_faces env img) s of
        (Inl e, s') \<Rightarrow> (Inl e, s')
      | (Inr faces, s') \<Rightarrow> extract_all_faces env imgs (face_images @ faces) s')"

text \<open>Lines 57--68.\<close>

definition faces_stage ::
  "('i, 'w) env \<Rightarrow> string \<Rightarrow> string \<Rightarrow> bool \<Rightarrow> (pyval list, 'i, 'w) comp" where
  "faces_stage env file_path doc_type skip_faces =
     and_then (invoke (ExtractImages file_path doc_type) (extract_images env file_path doc_type))
       (\<lambda>images. if \<not> skip_faces then extract_all_faces env images [] else ret [])"

text \<open>
  Lines 71--81.  \<open>document_analysis.get\<close> raises \<open>AttributeError\<close> unless the analyzer
  returned a dict, so from here on \<open>document_analysis\<close> is a dict.
\<close>

definition text_analysis_stage ::
  "('i, 'w) env \<Rightarrow> string option \<Rightarrow> (pydict \<times> pyval, 'i, 'w) comp" where
  "text_analysis_stage env text_content =
     (case text_content of
        None \<Rightarrow> ret (fmempty, PBool True)
      | Some t \<Rightarrow>
          if t \<noteq> [] then
            and_then (invoke (AnalyzeDocument t) (analyze_document env t)) (\<lambda>document_analysis.
              case document_analysis of
                PDict d \<Rightarrow> ret (d, dict_get d ''api_available'' (PBool False))
              | v \<Rightarrow> throw (attribute_error v ''get''))
          else ret (fmempty, PBool True))"

text \<open>Lines 34--81.\<close>

definition extraction_and_text_analysis ::
  "('i, 'w) env \<Rightarrow> string \<Rightarrow> bool \<Rightarrow> (string \<times> pyval list \<times> pydict \<times> pyval, 'i, 'w) comp" where
  "extraction_and_text_analysis env file_path skip_faces =
     and_then (text_with_ocr env file_path) (\<lambda>(doc_type, text_content).
     and_then (faces_stage env file_path doc_type skip_faces) (\<lambda>face_images.
     and_then (text_analysis_stage env text_content) (\<lambda>(document_analysis, api_available).
     ret (doc_type, face_images, document_analysis, api_available))))"

text \<open>
  Lines 85--88.  \<open>and\<close> and \<open>or\<close> short-circuit: the second \<open>.get\<close> chain is evaluated only
  when faces are wanted and present and \<open>structured_info\<close> is truthy, and it raises when
  that truthy value is not a dict.
\<close>

definition need_face_analysis :: "bool \<Rightarrow> pyval list \<Rightarrow> pydict \<Rightarrow> exn + bool" where
  "need_face_analysis skip_faces face_images document_analysis =
     (if skip_faces then Inr False
      else if face_images = [] then Inr False
      else if \<not> truthy (dict_get document_analysis ''structured_info'' PNone) then Inr True
      else (case dict_get document_analysis ''structured_info'' (PDict fmempty) of
              PDict si \<Rightarrow> Inr (\<not> truthy (dict_get si ''personal_info'' PNone))
            | v \<Rightarrow> Inl (attribute_error v ''get'')))"

text \<open>
  Lines 95--105, the body of the loop after \<open>analyze_image_content\<close> has returned
  \<open>image_analysis\<close>.  It gives the new \<open>document_analysis\<close> and \<open>api_available\<close>.
\<close>

definition merge_image_analysis :: "pyval \<Rightarrow> pydict \<Rightarrow> pyval \<Rightarrow> exn + pydict \<times> pyval" where
  "merge_image_analysis image_analysis document_analysis api_available =
     (if \<not> truthy image_analysis then Inr (document_analysis, api_available)
      else (case image_analysis of
        PDict ia \<Rightarrow>
          if truthy (dict_get ia ''success'' PNone) then
            (let da1 = (if ''structured_info'' |\<notin>| fmdom document_analysis
                        then fmupd ''structured_info'' (PDict fmempty) document_analysis
                        else document_analysis);
                 api' = py_or api_available (dict_get ia ''api_available'' (PBool False))
             in (case fmlookup ia ''structured_info'' of
                   Some (PDict isi) \<Rightarrow>
                     (case fmlookup da1 ''structured_info'' of
                        None \<Rightarrow> Inl (key_error ''structured_info'')
                      | Some (PDict si) \<Rightarrow>
                          Inr (fmupd ''structured_info'' (PDict (si ++\<^sub>f isi)) da1, api')
                      | Some v \<Rightarrow> Inl (attribute_error v ''update''))
                 | _ \<Rightarrow> Inr (da1, api')))
          else Inr (document_analysis, api_available)
      | v \<Rightarrow> Inl (attribute_error v ''get'')))"

text \<open>Lines 92--105: the loop over \<open>face_images[:1]\<close>.\<close>

fun analyze_faces ::
  "('i, 'w) env \<Rightarrow> pyval list \<Rightarrow> pydict \<Rightarrow> pyval \<Rightarrow> (pydict \<times> pyval, 'i, 'w) comp" where
  "analyze_faces env [] document_analysis api_available s =
     (Inr (document_analysis, api_available), s)"
| "analyze_faces env (face # rest) document_analysis api_available s =
     (case invoke (AnalyzeImageContent face) (analyze_image_content env face) s of
        (Inl e, s') \<Rightarrow> (Inl e, s')
      | (Inr image_analysis, s') \<Rightarrow>
          (case merge_image_analysis image_analysis document_analysis api_available of
             Inl e \<Rightarrow> (Inl e, s')
           | Inr (da', api') \<Rightarrow> analyze_faces env rest da' api' s'))"

text \<open>Lines 85--105.\<close>

definition face_analysis_stage ::
  "('i, 'w) env \<Rightarrow> bool \<Rightarrow> pyval list \<Rightarrow> pydict \<Rightarrow> pyval \<Rightarrow> (pydict \<times> pyval, 'i, 'w) comp" where
  "face_analysis_stage env skip_faces face_images document_analysis api_available =
     (case need_face_analysis skip_faces face_images document_analysis of
        Inl e \<Rightarrow> throw e
      | Inr need \<Rightarrow>
          if need then analyze_faces env (take 1 face_images) document_analysis api_available
          else ret (document_analysis, api_available))"

text \<open>
  Line 115: \<open>[face.decode('utf-8') if isinstance(face, bytes) else face for face in face_images]\<close>.
\<close>

fun encode_faces :: "('i, 'w) env \<Rightarrow> pyval list \<Rightarrow> exn + pyval list" where
  "encode_faces env [] = Inr []"
| "encode_faces env (face # rest) =
     (case (case face of
              PBytes b \<Rightarrow> (case bytes_decode env b of Inl e \<Rightarrow> Inl e | Inr str \<Rightarrow> Inr (PStr str))
            | v \<Rightarrow> Inr v) of
        Inl e \<Rightarrow> Inl e
      | Inr x \<Rightarrow> (case encode_faces env rest of Inl e \<Rightarrow> Inl e | Inr xs \<Rightarrow> Inr (x # xs)))"

text \<open>Lines 108--117: the result dict.\<close>

definition success_result :: "string \<Rightarrow> pydict \<Rightarrow> pyval \<Rightarrow> pyval list \<Rightarrow> pyval list \<Rightarrow> pydict" where
  "success_result doc_type document_analysis api_available face_images encoded =
     fmap_of_list
       [(''document_type'', PStr doc_type),
        (''extracted_info'', PDict (fmupd ''api_available'' api_available document_analysis)),
        (''face_count'', PInt (int (length face_images))),
        (''face_images'', PList encoded),
        (''success'', PBool True)]"

definition assemble ::
  "('i, 'w) env \<Rightarrow> string \<Rightarrow> pydict \<Rightarrow> pyval \<Rightarrow> pyval list \<Rightarrow> (pydict, 'i, 'w) comp" where
  "assemble env doc_type document_analysis api_available face_images =
     (case encode_faces env face_images of
        Inl e \<Rightarrow> throw e
      | Inr encoded \<Rightarrow>
          ret (success_result doc_type document_analysis api_available face_images encoded))"

text \<open>Lines 31--119: the body of the \<open>try\<close> block.\<close>

definition process_body :: "('i, 'w) env \<Rightarrow> string \<Rightarrow> bool \<Rightarrow> (pydict, 'i, 'w) comp" where
  "process_body env file_path skip_faces =
     and_then (extraction_and_text_analysis env file_path skip_faces)
       (\<lambda>(doc_type, face_images, document_analysis, api_available).
     and_then (face_analysis_stage env skip_faces face_images document_analysis api_available)
       (\<lambda>(document_analysis, api_available).
     assemble env doc_type document_analysis api_available face_images))"

text \<open>Lines 123--126: the dict returned by the handler, given the value of \<open>str(e)\<close>.\<close>

definition failure_result :: "string \<Rightarrow> pydict" where
  "failure_result message = fmap_of_list [(''success'', PBool False), (''error'', PStr message)]"

text \<open>
  What the caller of \<open>process\<close> sees: a returned dict, or an exception: one that the
  handler \<open>except Exception\<close> did not catch, or one raised inside the handler.
\<close>

datatype outcome = Returned pydict | Propagated exn

text \<open>
  Lines 19--126.  The call log starts empty.  The handler evaluates \<open>str(e)\<close> at lines 122
  and 125, outside any \<open>try\<close>: when that raises, the new exception leaves \<open>process\<close>.
\<close>

definition process ::
  "('i, 'w) env \<Rightarrow> string \<Rightarrow> bool \<Rightarrow> 'w \<Rightarrow> outcome \<times> ('i, 'w) pstate" where
  "process env file_path skip_faces w =
     (case process_body env file_path skip_faces \<lparr>world = w, calls = []\<rparr> of
        (Inr result, s) \<Rightarrow> (Returned result, s)
      | (Inl e, s) \<Rightarrow>
          (case exc_class e of
             ExceptionSubclass \<Rightarrow>
               (case exc_str e of
                  Inr message \<Rightarrow> (Returned (failure_result message), s)
                | Inl e' \<Rightarrow> (Propagated e', s))
           | BaseExceptionOnly \<Rightarrow> (Propagated e, s)))"


section \<open>Notions used in the proofs\<close>

text \<open>The part of \<open>process\<close> after the OCR stage (lines 57--119).\<close>

definition after_ocr ::
  "('i, 'w) env \<Rightarrow> string \<Rightarrow> bool \<Rightarrow> string \<Rightarrow> string option \<Rightarrow> (pydict, 'i, 'w) comp" where
  "after_ocr env file_path skip_faces doc_type text_content =
     and_then (faces_stage env file_path doc_type skip_faces) (\<lambda>face_images.
     and_then (text_analysis_stage env text_content) (\<lambda>(document_analysis, api_available).
     and_then (face_analysis_stage env skip_faces face_images document_analysis api_available)
       (\<lambda>(document_analysis, api_available).
     assemble env doc_type document_analysis api_available face_images)))"

text \<open>The part of \<open>process\<close> after the text analysis (lines 85--119).\<close>

definition after_text_analysis ::
  "('i, 'w) env \<Rightarrow> bool \<Rightarrow> string \<Rightarrow> pyval list \<Rightarrow> pydict \<Rightarrow> pyval \<Rightarrow> (pydict, 'i, 'w) comp" where
  "after_text_analysis env skip_faces doc_type face_images document_analysis api_available =
     and_then (face_analysis_stage env skip_faces face_images document_analysis api_available)
       (\<lambda>(document_analysis, api_available).
     assemble env doc_type document_analysis api_available face_images)"

text \<open>The logged calls of one kind, and computations that log no call of that kind.\<close>

definition sel :: "('i call \<Rightarrow> bool) \<Rightarrow> ('i, 'w) pstate \<Rightarrow> 'i call list" where
  "sel P s = filter P (calls s)"

definition keeps :: "('i call \<Rightarrow> bool) \<Rightarrow> ('a, 'i, 'w) comp \<Rightarrow> bool" where
  "keeps P m = (\<forall>s. sel P (snd (m s)) = sel P s)"

text \<open>
  An analyzer result that reports unavailability: a dict whose \<open>api_available\<close> is \<open>False\<close>
  or missing (\<open>.get('api_available', False)\<close> is \<open>False\<close>).
\<close>

definition reports_unavailable :: "pyval \<Rightarrow> bool" where
  "reports_unavailable v =
     (case v of PDict d \<Rightarrow> dict_get d ''api_available'' (PBool False) = PBool False | _ \<Rightarrow> False)"

section \<open>Example environments\<close>

text \<open>
  A photographed identity card: five characters of native text, OCR text, one embedded
  image with three faces (the first one as \<open>bytes\<close>), a text analyzer that is unavailable
  but returns two fields, and an image analyzer that succeeds.
\<close>

definition id_card_env :: "(nat, unit) env" where
  "id_card_env =
     \<lparr> get_document_type = (\<lambda>file_path w. (Inr ''image'', w)),
       extract_text_from_document = (\<lambda>file_path doc_type w. (Inr (Some ''ID 42''), w)),
       perform_ocr = (\<lambda>file_path doc_type w. (Inr (Some ''JOHN DOE''), w)),
       extract_images = (\<lambda>file_path doc_type w. (Inr [0], w)),
       extract_faces = (\<lambda>img w.
         (Inr [PBytes ''ZmFjZTE='', PStr ''ZmFjZTI='', PStr ''ZmFjZTM=''], w)),
       analyze_document = (\<lambda>text w.
         (Inr (PDict (fmap_of_list
            [(''api_available'', PBool False),
             (''structured_info'',
              PDict (fmap_of_list [(''id_number'', PStr ''42''), (''name'', PStr ''J DOE'')]))])),
          w)),
       analyze_image_content = (\<lambda>face w.
         (Inr (PDict (fmap_of_list
            [(''success'', PBool True), (''api_available'', PBool True),
             (''structured_info'', PDict (fmap_of_list [(''name'', PStr ''JOHN DOE'')]))])),
          w)),
       bytes_decode = (\<lambda>b. Inr b) \<rparr>"

text \<open>What \<open>process\<close> returns for it, and the calls it makes.\<close>

definition id_card_result :: pydict where
  "id_card_result =
     fmap_of_list
       [(''document_type'', PStr ''image''),
        (''extracted_info'',
         PDict (fmap_of_list
           [(''api_available'', PBool True),
            (''structured_info'',
             PDict (fmap_of_list [(''id_number'', PStr ''42''), (''name'', PStr ''JOHN DOE'')]))])),
        (''face_count'', PInt 3),
        (''face_images'', PList [PStr ''ZmFjZTE='', PStr ''ZmFjZTI='', PStr ''ZmFjZTM='']),
        (''success'', PBool True)]"

definition id_card_calls :: "nat call list" where
  "id_card_calls =
     [GetDocumentType ''id.jpg'', ExtractText ''id.jpg'' ''image'',
      PerformOcr ''id.jpg'' ''image'', ExtractImages ''id.jpg'' ''image'',
      ExtractFaces 0, AnalyzeDocument (''ID 42'' @ [CHR 0x0A, CHR 0x0A] @ ''JOHN DOE''),
      AnalyzeImageContent (PBytes ''ZmFjZTE='')]"

text \<open>The same document with face extraction skipped.\<close>

definition id_card_skip_result :: pydict where
  "id_card_skip_result =
     fmap_of_list
       [(''document_type'', PStr ''image''),
        (''extracted_info'',
         PDict (fmap_of_list
           [(''api_available'', PBool False),
            (''structured_info'',
             PDict (fmap_of_list [(''id_number'', PStr ''42''), (''name'', PStr ''J DOE'')]))])),
        (''face_count'', PInt 0),
        (''face_images'', PList []),
        (''success'', PBool True)]"

definition id_card_skip_calls :: "nat call list" where
  "id_card_skip_calls =
     [GetDocumentType ''id.jpg'', ExtractText ''id.jpg'' ''image'',
      PerformOcr ''id.jpg'' ''image'', ExtractImages ''id.jpg'' ''image'',
      AnalyzeDocument (''ID 42'' @ [CHR 0x0A, CHR 0x0A] @ ''JOHN DOE'')]"

definition missing_file_env :: "(nat, unit) env" where
  "missing_file_env =
     id_card_env \<lparr> get_document_type :=
       (\<lambda>file_path w. (Inl (Raised ExceptionSubclass (Inr (''No such file: '' @ file_path))), w)) \<rparr>"

definition interrupted_env :: "(nat, unit) env" where
  "interrupted_env =
     id_card_env \<lparr> perform_ocr :=
       (\<lambda>file_path doc_type w. (Inl (Raised BaseExceptionOnly (Inr '''')), w)) \<rparr>"

definition late_failure_env :: "(nat, unit) env" where
  "late_failure_env =
     id_card_env \<lparr> analyze_image_content :=
       (\<lambda>face w. (Inl (Raised ExceptionSubclass (Inr ''Connection error.'')), w)) \<rparr>"

definition empty_personal_info_env :: "(nat, unit) env" where
  "empty_personal_info_env =
     id_card_env \<lparr> analyze_document := (\<lambda>text w.
       (Inr (PDict (fmap_of_list
          [(''api_available'', PBool True),
           (''structured_info'', PDict (fmap_of_list [(''personal_info'', PDict fmempty)]))])),
        w)) \<rparr>"

definition null_structured_info_env :: "(nat, unit) env" where
  "null_structured_info_env =
     id_card_env \<lparr> analyze_document := (\<lambda>text w.
       (Inr (PDict (fmap_of_list
          [(''api_available'', PBool False), (''structured_info'', PNone)])),
        w)) \<rparr>"

definition blank_page_env :: "(nat, unit) env" where
  "blank_page_env =
     id_card_env \<lparr> extract_text_from_document := (\<lambda>file_path doc_type w. (Inr (Some ''''), w)),
                   perform_ocr := (\<lambda>file_path doc_type w. (Inr None, w)),
                   analyze_image_content := (\<lambda>face w.
                     (Inr (PDict (fmap_of_list
                        [(''success'', PBool True), (''api_available'', PBool False)])), w)) \<rparr>"

definition blank_page_calls :: "nat call list" where
  "blank_page_calls =
     [GetDocumentType ''blank.jpg'', ExtractText ''blank.jpg'' ''image'',
      PerformOcr ''blank.jpg'' ''image'', ExtractImages ''blank.jpg'' ''image'',
      ExtractFaces 0, AnalyzeImageContent (PBytes ''ZmFjZTE='')]"

definition blank_page_result :: pydict where
  "blank_page_result =
     fmap_of_list
       [(''document_type'', PStr ''image''),
        (''extracted_info'',
         PDict (fmap_of_list
           [(''api_available'', PBool True), (''structured_info'', PDict fmempty)])),
        (''face_count'', PInt 3),
        (''face_images'', PList [PStr ''ZmFjZTE='', PStr ''ZmFjZTI='', PStr ''ZmFjZTM='']),
        (''success'', PBool True)]"

definition id_card_faces :: "pyval list" where
  "id_card_faces = [PBytes ''ZmFjZTE='', PStr ''ZmFjZTI='', PStr ''ZmFjZTM='']"

definition id_card_text_analysis :: pydict where
  "id_card_text_analysis =
     fmap_of_list
       [(''api_available'', PBool False),
        (''structured_info'',
         PDict (fmap_of_list [(''id_number'', PStr ''42''), (''name'', PStr ''J DOE'')]))]"

definition id_card_calls_before_faces :: "nat call list" where
  "id_card_calls_before_faces =
     [GetDocumentType ''id.jpg'', ExtractText ''id.jpg'' ''image'',
      PerformOcr ''id.jpg'' ''image'', ExtractImages ''id.jpg'' ''image'',
      ExtractFaces 0, AnalyzeDocument (''ID 42'' @ [CHR 0x0A, CHR 0x0A] @ ''JOHN DOE'')]"

definition id_card_image_analysis :: pydict where
  "id_card_image_analysis =
     fmap_of_list
       [(''success'', PBool True), (''api_available'', PBool True),
        (''structured_info'', PDict (fmap_of_list [(''name'', PStr ''JOHN DOE'')]))]"

definition offline_env :: "(nat, unit) env" where
  "offline_env =
     id_card_env \<lparr> analyze_image_content := (\<lambda>face w.
       (Inr (PDict (fmap_of_list [(''success'', PBool False), (''api_available'', PBool False)])),
        w)) \<rparr>"

definition offline_blank_env :: "(nat, unit) env" where
  "offline_blank_env =
     offline_env \<lparr> extract_text_from_document := (\<lambda>file_path doc_type w. (Inr (Some ''''), w)),
                   perform_ocr := (\<lambda>file_path doc_type w. (Inr (Some ''''), w)) \<rparr>"

definition offline_result :: pydict where
  "offline_result =
     fmap_of_list
       [(''document_type'', PStr ''image''),
        (''extracted_info'',
         PDict (fmap_of_list
           [(''api_available'', PBool False),
            (''structured_info'',
             PDict (fmap_of_list [(''id_number'', PStr ''42''), (''name'', PStr ''J DOE'')]))])),
        (''face_count'', PInt 3),
        (''face_images'', PList [PStr ''ZmFjZTE='', PStr ''ZmFjZTI='', PStr ''ZmFjZTM='']),
        (''success'', PBool True)]"

section \<open>Sequencing and the call log\<close>

lemma and_then_result:
  "and_then m f s = (Inr y, s2) \<Longrightarrow> \<exists>x s1. m s = (Inr x, s1) \<and> f x s1 = (Inr y, s2)"
  by (auto simp: and_then_def split: prod.splits sum.splits)

lemma keeps_ret: "keeps P (ret x)"
  by (simp add: keeps_def ret_def)

lemma keeps_throw: "keeps P (throw e)"
  by (simp add: keeps_def throw_def)

lemma sel_invoke: "sel P (snd (invoke ev f s)) = sel P s @ (if P ev then [ev] else [])"
  by (simp add: sel_def invoke_def split: prod.splits)

lemma keeps_invoke: "\<not> P ev \<Longrightarrow> keeps P (invoke ev f)"
  by (simp add: keeps_def sel_invoke)

lemma keeps_and_then: "keeps P m \<Longrightarrow> (\<And>x. keeps P (f x)) \<Longrightarrow> keeps P (and_then m f)"
  by (auto simp: keeps_def and_then_def split: prod.splits sum.splits) (metis snd_conv)+


lemma keeps_case_sum:
  "(\<And>e. keeps P (f e)) \<Longrightarrow> (\<And>x. keeps P (g x)) \<Longrightarrow> keeps P (case v of Inl e \<Rightarrow> f e | Inr x \<Rightarrow> g x)"
  by (cases v) simp_all

lemma keeps_detect_and_extract:
  "(\<And>a. \<not> P (GetDocumentType a)) \<Longrightarrow> (\<And>a b. \<not> P (ExtractText a b)) \<Longrightarrow>
   keeps P (detect_and_extract env fp)"
  unfolding detect_and_extract_def
  by (intro keeps_and_then keeps_invoke keeps_ret) simp_all

lemma keeps_ocr_stage:
  "(\<And>a b. \<not> P (PerformOcr a b)) \<Longrightarrow> keeps P (ocr_stage env fp dt tc)"
  unfolding ocr_stage_def
  by (auto intro!: keeps_and_then keeps_invoke keeps_ret)

lemma keeps_extract_all_faces:
  "(\<And>i. \<not> P (ExtractFaces i)) \<Longrightarrow> keeps P (extract_all_faces env imgs acc)"
proof (induction imgs arbitrary: acc)
  case Nil
  show ?case by (simp add: keeps_def)
next
  case (Cons img imgs)
  have step: "extract_all_faces env (img # imgs) acc =
      and_then (invoke (ExtractFaces img) (extract_faces env img))
        (\<lambda>faces. extract_all_faces env imgs (acc @ faces))"
    by (rule ext) (simp add: and_then_def split: prod.splits sum.splits)
  show ?case unfolding step
    by (intro keeps_and_then keeps_invoke Cons Cons.prems)
qed

lemma keeps_faces_stage:
  "(\<And>a b. \<not> P (ExtractImages a b)) \<Longrightarrow> (\<And>i. \<not> P (ExtractFaces i)) \<Longrightarrow>
   keeps P (faces_stage env fp dt skip)"
  unfolding faces_stage_def
  by (auto intro!: keeps_and_then keeps_invoke keeps_ret keeps_extract_all_faces)

lemma keeps_text_analysis_stage:
  "(\<And>t. \<not> P (AnalyzeDocument t)) \<Longrightarrow> keeps P (text_analysis_stage env text)"
  unfolding text_analysis_stage_def
  by (auto intro!: keeps_and_then keeps_invoke keeps_ret keeps_throw split: option.splits pyval.splits)

lemma keeps_analyze_faces:
  "(\<And>f. \<not> P (AnalyzeImageContent f)) \<Longrightarrow> keeps P (analyze_faces env fs da api)"
proof (induction fs arbitrary: da api)
  case Nil
  show ?case by (simp add: keeps_def)
next
  case (Cons face rest)
  have step: "analyze_faces env (face # rest) da api =
      and_then (invoke (AnalyzeImageContent face) (analyze_image_content env face))
        (\<lambda>ia. case merge_image_analysis ia da api of
                 Inl e \<Rightarrow> throw e
               | Inr (da', api') \<Rightarrow> analyze_faces env rest da' api')"
    by (rule ext) (simp add: and_then_def throw_def split: prod.splits sum.splits)
  show ?case unfolding step
    by (intro keeps_and_then keeps_invoke keeps_case_sum keeps_throw)
       (auto simp: Cons.prems intro: Cons.IH)
qed

lemma keeps_face_analysis_stage:
  "(\<And>f. \<not> P (AnalyzeImageContent f)) \<Longrightarrow> keeps P (face_analysis_stage env skip fs da api)"
  unfolding face_analysis_stage_def
  by (auto intro!: keeps_ret keeps_throw keeps_analyze_faces split: sum.splits)

lemma keeps_assemble: "keeps P (assemble env dt da api fs)"
  unfolding assemble_def
  by (auto intro!: keeps_ret keeps_throw split: sum.splits)

lemma keepsD: "keeps P m \<Longrightarrow> m s = (r, s') \<Longrightarrow> sel P s' = sel P s"
  by (auto simp: keeps_def dest: spec [of _ s])


lemma process_final_state:
  "process env fp skip w = (out, s) \<Longrightarrow>
   \<exists>res. process_body env fp skip \<lparr>world = w, calls = []\<rparr> = (res, s)"
  by (auto simp: process_def split: prod.splits sum.splits exc_class.splits)

lemma failure_result_success: "fmlookup (failure_result msg) ''success'' = Some (PBool False)"
  by (simp add: failure_result_def)

lemma process_success:
  assumes "process env fp skip w = (Returned r, s)"
      and "fmlookup r ''success'' = Some (PBool True)"
  shows "process_body env fp skip \<lparr>world = w, calls = []\<rparr> = (Inr r, s)"
  using assms
  by (auto simp: process_def failure_result_success split: prod.splits sum.splits exc_class.splits)

lemma process_body_Inr:
  assumes "process_body env fp skip s0 = (Inr r, s)"
  shows "\<exists>dt faces da api s4 da' api' enc.
           extraction_and_text_analysis env fp skip s0 = (Inr (dt, faces, da, api), s4)
         \<and> face_analysis_stage env skip faces da api s4 = (Inr (da', api'), s)
         \<and> encode_faces env faces = Inr enc
         \<and> r = success_result dt da' api' faces enc"
  using assms unfolding process_body_def
  by (auto dest!: and_then_result simp: assemble_def ret_def throw_def split: sum.splits)

lemma extraction_Inr:
  assumes "extraction_and_text_analysis env fp skip s0 = (Inr (dt, faces, da, api), s4)"
  shows "\<exists>text s2 s3.
           text_with_ocr env fp s0 = (Inr (dt, text), s2)
         \<and> faces_stage env fp dt skip s2 = (Inr faces, s3)
         \<and> text_analysis_stage env text s3 = (Inr (da, api), s4)"
  using assms unfolding extraction_and_text_analysis_def
  by (auto dest!: and_then_result simp: ret_def)

lemma encode_faces_length: "encode_faces env fs = Inr enc \<Longrightarrow> length enc = length fs"
  by (induction fs arbitrary: enc) (auto split: sum.splits pyval.splits)

lemma faces_stage_skip:
  "faces_stage env fp dt True s = (Inr faces, s') \<Longrightarrow> faces = []"
  by (auto simp: faces_stage_def ret_def dest!: and_then_result)

section \<open>The faces in the result\<close>

text \<open>
  C1.  Whenever \<open>process\<close> returns a successful result, its \<open>face_count\<close> is the length of
  its \<open>face_images\<close> list.
\<close>

theorem face_count_matches:
  assumes "process env fp skip w = (Returned r, s)"
      and "fmlookup r ''success'' = Some (PBool True)"
  shows "\<exists>imgs. fmlookup r ''face_images'' = Some (PList imgs)
               \<and> fmlookup r ''face_count'' = Some (PInt (int (length imgs)))"
proof -
  from process_success [OF assms] obtain dt faces da api enc
    where enc: "encode_faces env faces = Inr enc"
      and r: "r = success_result dt da api faces enc"
    by (blast dest: process_body_Inr)
  from enc have "length enc = length faces" by (rule encode_faces_length)
  with r show ?thesis by (simp add: success_result_def)
qed

theorem face_count_matches_witness:
  "process id_card_env ''id.jpg'' False () = (Returned id_card_result, \<lparr>world = (), calls = id_card_calls\<rparr>)
   \<and> fmlookup id_card_result ''success'' = Some (PBool True)
   \<and> (\<exists>imgs. fmlookup id_card_result ''face_images'' = Some (PList imgs)
              \<and> fmlookup id_card_result ''face_count'' = Some (PInt (int (length imgs))))"
proof -
  have run: "process id_card_env ''id.jpg'' False ()
               = (Returned id_card_result, \<lparr>world = (), calls = id_card_calls\<rparr>)"
    by code_simp
  have ok: "fmlookup id_card_result ''success'' = Some (PBool True)"
    by (simp add: id_card_result_def)
  from face_count_matches [OF run ok] run ok show ?thesis by blast
qed

text \<open>
  C8.  With \<open>skip_faces = True\<close>, a successful result has an empty \<open>face_images\<close> list and
  \<open>face_count\<close> 0, whatever images the document contains.
\<close>

theorem skip_faces_gives_no_faces:
  assumes "process env fp True w = (Returned r, s)"
      and "fmlookup r ''success'' = Some (PBool True)"
  shows "fmlookup r ''face_images'' = Some (PList [])
       \<and> fmlookup r ''face_count'' = Some (PInt 0)"
proof -
  from process_success [OF assms] obtain dt faces da api s4 enc
    where pre: "extraction_and_text_analysis env fp True \<lparr>world = w, calls = []\<rparr>
                  = (Inr (dt, faces, da, api), s4)"
      and enc: "encode_faces env faces = Inr enc"
      and r: "\<exists>da' api'. r = success_result dt da' api' faces enc"
    by (blast dest: process_body_Inr)
  from pre have "faces = []"
    by (blast dest: extraction_Inr faces_stage_skip)
  with enc r show ?thesis by (auto simp: success_result_def)
qed

theorem skip_faces_gives_no_faces_witness:
  "process id_card_env ''id.jpg'' True ()
     = (Returned id_card_skip_result, \<lparr>world = (), calls = id_card_skip_calls\<rparr>)
   \<and> fmlookup id_card_skip_result ''success'' = Some (PBool True)
   \<and> fmlookup id_card_skip_result ''face_images'' = Some (PList [])
   \<and> fmlookup id_card_skip_result ''face_count'' = Some (PInt 0)"
proof -
  have run: "process id_card_env ''id.jpg'' True ()
               = (Returned id_card_skip_result, \<lparr>world = (), calls = id_card_skip_calls\<rparr>)"
    by code_simp
  have ok: "fmlookup id_card_skip_result ''success'' = Some (PBool True)"
    by (simp add: id_card_skip_result_def)
  from skip_faces_gives_no_faces [OF run ok] run ok show ?thesis by blast
qed

section \<open>Exceptions and the handler\<close>

text \<open>
  C2, for exceptions the handler can deal with.  When a step of \<open>process\<close> raises an
  exception whose class derives from \<open>Exception\<close> and whose \<open>str(e)\<close> returns a message,
  \<open>process\<close> returns the dict \<open>{success: False, error: str(e)}\<close>.  An exception leaves
  \<open>process\<close> in two cases only: its class does not derive from \<open>Exception\<close>, or its
  \<open>str(e)\<close> raises (then what \<open>str(e)\<close> raised leaves).
\<close>

theorem exceptions_are_caught:
  assumes "process_body env fp skip \<lparr>world = w, calls = []\<rparr> = (Inl e, s)"
  shows "process env fp skip w =
           (if exc_class e = ExceptionSubclass
            then (case exc_str e of
                    Inr message \<Rightarrow>
                      Returned (fmap_of_list [(''success'', PBool False), (''error'', PStr message)])
                  | Inl e' \<Rightarrow> Propagated e')
            else Propagated e, s)"
  using assms
  by (cases "exc_class e") (simp_all add: process_def failure_result_def split: sum.splits)

theorem exceptions_are_caught_witness:
  "process_body missing_file_env ''gone.pdf'' False \<lparr>world = (), calls = []\<rparr>
     = (Inl (Raised ExceptionSubclass (Inr ''No such file: gone.pdf'')),
        \<lparr>world = (), calls = [GetDocumentType ''gone.pdf'']\<rparr>)
   \<and> process missing_file_env ''gone.pdf'' False () =
       (Returned (fmap_of_list [(''success'', PBool False),
                                (''error'', PStr ''No such file: gone.pdf'')]),
        \<lparr>world = (), calls = [GetDocumentType ''gone.pdf'']\<rparr>)"
proof -
  have body: "process_body missing_file_env ''gone.pdf'' False \<lparr>world = (), calls = []\<rparr>
      = (Inl (Raised ExceptionSubclass (Inr ''No such file: gone.pdf'')),
         \<lparr>world = (), calls = [GetDocumentType ''gone.pdf'']\<rparr>)"
    by code_simp
  from exceptions_are_caught [OF body] body show ?thesis
    by simp
qed

text \<open>
  The handler is \<open>except Exception\<close>: a \<open>KeyboardInterrupt\<close> (or \<open>SystemExit\<close>) raised
  while the OCR engine runs is not caught and reaches the caller of \<open>process\<close>.
\<close>

theorem base_exception_escapes:
  "process interrupted_env ''id.jpg'' False () =
     (Propagated (Raised BaseExceptionOnly (Inr '''')),
      \<lparr>world = (), calls = [GetDocumentType ''id.jpg'', ExtractText ''id.jpg'' ''image'',
                           PerformOcr ''id.jpg'' ''image'']\<rparr>)"
  by code_simp

text \<open>
  C10.  Whenever a step raised and \<open>process\<close> still returns a dict (the handler caught the
  exception), that dict has exactly the keys \<open>success\<close> and \<open>error\<close>; \<open>document_type\<close>,
  \<open>extracted_info\<close>, \<open>face_count\<close> and \<open>face_images\<close> are absent, also when the
  exception comes late, after the type, the text analysis and the faces were computed.
\<close>

theorem failure_result_has_two_keys:
  assumes "process_body env fp skip \<lparr>world = w, calls = []\<rparr> = (Inl e, s')"
      and "process env fp skip w = (Returned r, s)"
  shows "fmdom r = {|''success'', ''error''|}
       \<and> fmlookup r ''document_type'' = None
       \<and> fmlookup r ''extracted_info'' = None
       \<and> fmlookup r ''face_count'' = None
       \<and> fmlookup r ''face_images'' = None"
  using assms
  by (auto simp: process_def failure_result_def split: exc_class.splits sum.splits)

theorem failure_result_has_two_keys_witness:
  "process_body late_failure_env ''id.jpg'' False \<lparr>world = (), calls = []\<rparr>
     = (Inl (Raised ExceptionSubclass (Inr ''Connection error.'')),
        \<lparr>world = (), calls = id_card_calls\<rparr>)
   \<and> process late_failure_env ''id.jpg'' False ()
     = (Returned (fmap_of_list [(''success'', PBool False), (''error'', PStr ''Connection error.'')]),
        \<lparr>world = (), calls = id_card_calls\<rparr>)
   \<and> fmdom (fmap_of_list [(''success'', PBool False), (''error'', PStr ''Connection error.'')])
     = {|''success'', ''error''|}"
proof -
  let ?r = "fmap_of_list [(''success'', PBool False), (''error'', PStr ''Connection error.'')]"
  have body: "process_body late_failure_env ''id.jpg'' False \<lparr>world = (), calls = []\<rparr>
     = (Inl (Raised ExceptionSubclass (Inr ''Connection error.'')),
        \<lparr>world = (), calls = id_card_calls\<rparr>)"
    by code_simp
  have run: "process late_failure_env ''id.jpg'' False ()
     = (Returned ?r, \<lparr>world = (), calls = id_card_calls\<rparr>)"
    by code_simp
  from failure_result_has_two_keys [OF body run] body run show ?thesis
    by blast
qed

section \<open>The OCR fallback\<close>

lemma process_body_after_ocr:
  "process_body env fp skip =
     and_then (text_with_ocr env fp) (\<lambda>(dt, text). after_ocr env fp skip dt text)"
  by (rule ext)
     (simp add: process_body_def extraction_and_text_analysis_def after_ocr_def and_then_def
        ret_def split: prod.splits sum.splits)

lemma process_body_after_text_analysis:
  "process_body env fp skip =
     and_then (extraction_and_text_analysis env fp skip)
       (\<lambda>(dt, faces, da, api). after_text_analysis env skip dt faces da api)"
  by (simp add: process_body_def after_text_analysis_def)

lemma keeps_text_with_ocr:
  "(\<And>a. \<not> P (GetDocumentType a)) \<Longrightarrow> (\<And>a b. \<not> P (ExtractText a b)) \<Longrightarrow>
   (\<And>a b. \<not> P (PerformOcr a b)) \<Longrightarrow> keeps P (text_with_ocr env fp)"
  unfolding text_with_ocr_def
  by (auto intro!: keeps_and_then keeps_ret keeps_detect_and_extract keeps_ocr_stage)

lemma keeps_after_text_analysis:
  "(\<And>f. \<not> P (AnalyzeImageContent f)) \<Longrightarrow> keeps P (after_text_analysis env skip dt fs da api)"
  unfolding after_text_analysis_def
  by (auto intro!: keeps_and_then keeps_face_analysis_stage keeps_assemble)

lemma keeps_after_ocr:
  "(\<And>a b. \<not> P (ExtractImages a b)) \<Longrightarrow> (\<And>i. \<not> P (ExtractFaces i)) \<Longrightarrow>
   (\<And>t. \<not> P (AnalyzeDocument t)) \<Longrightarrow> (\<And>f. \<not> P (AnalyzeImageContent f)) \<Longrightarrow>
   keeps P (after_ocr env fp skip dt text)"
  unfolding after_ocr_def
  by (auto intro!: keeps_and_then keeps_faces_stage keeps_text_analysis_stage
        keeps_face_analysis_stage keeps_assemble)

lemma ocr_stage_calls:
  "ocr_stage env fp dt tc s1 = (r, s2) \<Longrightarrow>
   calls s2 = calls s1 @ (if ocr_needed dt tc then [PerformOcr fp dt] else [])"
  by (auto simp: ocr_stage_def and_then_def invoke_def ret_def split: prod.splits sum.splits if_splits)

lemma ocr_needed_iff:
  "ocr_needed dt tc \<longleftrightarrow>
     (dt = ''image'' \<or> dt = ''pdf'') \<and> (tc = None \<or> (\<exists>t. tc = Some t \<and> (t = [] \<or> length t < 50)))"
  by (auto simp: ocr_needed_def opt_truthy_def split: option.splits)

text \<open>
  C4.  Once the document type and the native text are known, \<open>perform_ocr\<close> is called
  (once, with the file path and the type) when the type is \<open>image\<close> or \<open>pdf\<close> and the
  native text is \<open>None\<close>, empty or shorter than 50 characters, and is not called at all
  otherwise.
\<close>

theorem ocr_invoked_iff:
  assumes de: "detect_and_extract env fp \<lparr>world = w, calls = []\<rparr> = (Inr (dt, tc), s1)"
      and run: "process env fp skip w = (out, s)"
  shows "filter is_PerformOcr (calls s) =
           (if (dt = ''image'' \<or> dt = ''pdf'')
               \<and> (tc = None \<or> (\<exists>t. tc = Some t \<and> (t = [] \<or> length t < 50)))
            then [PerformOcr fp dt] else [])"
proof -
  let ?s0 = "\<lparr>world = w, calls = []\<rparr> :: ('a, 'b) pstate"
  let ?P = "is_PerformOcr :: 'a call \<Rightarrow> bool"
  from run obtain res where body: "process_body env fp skip ?s0 = (res, s)"
    by (blast dest: process_final_state)
  have "keeps ?P (detect_and_extract env fp)"
    by (rule keeps_detect_and_extract) simp_all
  from keepsD [OF this de] have s1: "sel ?P s1 = []"
    by (simp add: sel_def)
  obtain r2 s2 where ocr: "ocr_stage env fp dt tc s1 = (r2, s2)"
    by (cases "ocr_stage env fp dt tc s1")
  from ocr_stage_calls [OF ocr] s1
  have s2: "sel ?P s2 = (if ocr_needed dt tc then [PerformOcr fp dt] else [])"
    by (simp add: sel_def)
  have "sel ?P s = sel ?P s2"
  proof (cases r2)
    case (Inl e)
    with de ocr have "text_with_ocr env fp ?s0 = (Inl e, s2)"
      by (simp add: text_with_ocr_def and_then_def)
    with body have "s = s2"
      by (simp add: process_body_after_ocr and_then_def)
    then show ?thesis by simp
  next
    case (Inr tx)
    with de ocr have "text_with_ocr env fp ?s0 = (Inr (dt, tx), s2)"
      by (simp add: text_with_ocr_def and_then_def ret_def)
    with body have rest: "after_ocr env fp skip dt tx s2 = (res, s)"
      by (simp add: process_body_after_ocr and_then_def)
    have "keeps ?P (after_ocr env fp skip dt tx)"
      by (rule keeps_after_ocr) simp_all
    from keepsD [OF this rest] show ?thesis .
  qed
  with s2 show ?thesis
    by (simp add: sel_def ocr_needed_iff)
qed

theorem ocr_invoked_iff_witness:
  "detect_and_extract id_card_env ''id.jpg'' \<lparr>world = (), calls = []\<rparr>
     = (Inr (''image'', Some ''ID 42''),
        \<lparr>world = (), calls = [GetDocumentType ''id.jpg'', ExtractText ''id.jpg'' ''image'']\<rparr>)
   \<and> process id_card_env ''id.jpg'' False ()
     = (Returned id_card_result, \<lparr>world = (), calls = id_card_calls\<rparr>)
   \<and> filter is_PerformOcr id_card_calls = [PerformOcr ''id.jpg'' ''image'']"
proof -
  have de: "detect_and_extract id_card_env ''id.jpg'' \<lparr>world = (), calls = []\<rparr>
     = (Inr (''image'', Some ''ID 42''),
        \<lparr>world = (), calls = [GetDocumentType ''id.jpg'', ExtractText ''id.jpg'' ''image'']\<rparr>)"
    by code_simp
  have run: "process id_card_env ''id.jpg'' False ()
               = (Returned id_card_result, \<lparr>world = (), calls = id_card_calls\<rparr>)"
    by code_simp
  from ocr_invoked_iff [OF de run] de run show ?thesis by simp
qed

lemma after_ocr_alt:
  "after_ocr env fp skip dt tx =
     and_then (faces_stage env fp dt skip) (\<lambda>faces.
     and_then (text_analysis_stage env tx) (\<lambda>(da, api).
     after_text_analysis env skip dt faces da api))"
  by (simp add: after_ocr_def after_text_analysis_def)

lemma text_analysis_stage_calls:
  "text_analysis_stage env tx s3 = (r, s4) \<Longrightarrow>
   calls s4 = calls s3 @ (case tx of None \<Rightarrow> [] | Some t \<Rightarrow> if t = [] then [] else [AnalyzeDocument t])"
  by (auto simp: text_analysis_stage_def and_then_def invoke_def ret_def throw_def
           split: option.splits prod.splits sum.splits if_splits pyval.splits)

lemma after_ocr_analyze_document:
  assumes rest: "after_ocr env fp skip dt tx s2 = (res, s)"
  shows "sel is_AnalyzeDocument s = sel is_AnalyzeDocument s2
       \<or> (\<exists>t. tx = Some t \<and> t \<noteq> []
              \<and> sel is_AnalyzeDocument s = sel is_AnalyzeDocument s2 @ [AnalyzeDocument t])"
proof -
  let ?P = "is_AnalyzeDocument :: 'a call \<Rightarrow> bool"
  obtain rf s3 where fs: "faces_stage env fp dt skip s2 = (rf, s3)"
    by (cases "faces_stage env fp dt skip s2")
  have "keeps ?P (faces_stage env fp dt skip)"
    by (rule keeps_faces_stage) simp_all
  from keepsD [OF this fs] have s3: "sel ?P s3 = sel ?P s2" .
  show ?thesis
  proof (cases rf)
    case (Inl e)
    with rest fs have "s = s3" by (simp add: after_ocr_alt and_then_def)
    with s3 show ?thesis by simp
  next
    case faces: (Inr faces)
    obtain ra s4 where ta: "text_analysis_stage env tx s3 = (ra, s4)"
      by (cases "text_analysis_stage env tx s3")
    from text_analysis_stage_calls [OF ta] s3
    have s4: "sel ?P s4 = sel ?P s2 @
               (case tx of None \<Rightarrow> [] | Some t \<Rightarrow> if t = [] then [] else [AnalyzeDocument t])"
      by (simp add: sel_def split: option.splits)
    have "sel ?P s = sel ?P s4"
    proof (cases ra)
      case (Inl e)
      with rest fs faces ta have "s = s4" by (simp add: after_ocr_alt and_then_def)
      then show ?thesis by simp
    next
      case (Inr p)
      obtain da api where p: "p = (da, api)" by (cases p)
      with Inr rest fs faces ta
      have tail: "after_text_analysis env skip dt faces da api s4 = (res, s)"
        by (simp add: after_ocr_alt and_then_def)
      have "keeps ?P (after_text_analysis env skip dt faces da api)"
        by (rule keeps_after_text_analysis) simp
      from keepsD [OF this tail] show ?thesis .
    qed
    with s4 show ?thesis by (auto split: option.splits if_splits)
  qed
qed

lemma text_with_ocr_no_analysis:
  "text_with_ocr env fp \<lparr>world = w, calls = []\<rparr> = (r, s2) \<Longrightarrow> sel is_AnalyzeDocument s2 = []"
proof -
  assume a: "text_with_ocr env fp \<lparr>world = w, calls = []\<rparr> = (r, s2)"
  have "keeps (is_AnalyzeDocument :: 'a call \<Rightarrow> bool) (text_with_ocr env fp)"
    by (rule keeps_text_with_ocr) simp_all
  from keepsD [OF this a] show ?thesis by (simp add: sel_def)
qed

text \<open>
  C5.  When OCR is triggered and returns a non-empty text: a non-empty native text is kept
  and followed by two newlines and the OCR text; an empty (or \<open>None\<close>) native text is
  replaced by exactly the OCR text.  This combined text is the only text ever handed to
  \<open>analyze_document\<close>.
\<close>

theorem ocr_text_is_appended:
  assumes de: "detect_and_extract env fp \<lparr>world = w, calls = []\<rparr> = (Inr (dt, tc), s1)"
      and need: "ocr_needed dt tc"
      and ocr: "perform_ocr env fp dt (world s1) = (Inr (Some oc), w2)"
      and ne: "oc \<noteq> []"
      and run: "process env fp skip w = (out, s)"
      and merged: "merged = (case tc of None \<Rightarrow> oc
                             | Some t \<Rightarrow> if t = [] then oc else t @ [CHR 0x0A, CHR 0x0A] @ oc)"
  shows "text_with_ocr env fp \<lparr>world = w, calls = []\<rparr>
           = (Inr (dt, Some merged), \<lparr>world = w2, calls = calls s1 @ [PerformOcr fp dt]\<rparr>)
       \<and> (\<forall>t. AnalyzeDocument t \<in> set (calls s) \<longrightarrow> t = merged)"
proof -
  let ?s0 = "\<lparr>world = w, calls = []\<rparr> :: ('a, 'b) pstate"
  let ?s2 = "\<lparr>world = w2, calls = calls s1 @ [PerformOcr fp dt]\<rparr>"
  have m: "merge_ocr tc (Some oc) = Some merged"
    using ne merged by (auto simp: merge_ocr_def opt_truthy_def split: option.splits)
  have two: "text_with_ocr env fp ?s0 = (Inr (dt, Some merged), ?s2)"
    using de need ocr m
    by (simp add: text_with_ocr_def ocr_stage_def and_then_def invoke_def ret_def)
  from run obtain res where body: "process_body env fp skip ?s0 = (res, s)"
    by (blast dest: process_final_state)
  with two have rest: "after_ocr env fp skip dt (Some merged) ?s2 = (res, s)"
    by (simp add: process_body_after_ocr and_then_def)
  from text_with_ocr_no_analysis [OF two] after_ocr_analyze_document [OF rest]
  have disj: "sel is_AnalyzeDocument s = [] \<or> sel is_AnalyzeDocument s = [AnalyzeDocument merged]"
    by auto
  have "t = merged" if "AnalyzeDocument t \<in> set (calls s)" for t
  proof -
    from that have "AnalyzeDocument t \<in> set (sel is_AnalyzeDocument s)"
      by (simp add: sel_def)
    with disj show ?thesis by auto
  qed
  with two show ?thesis by simp
qed

theorem ocr_text_is_appended_witness:
  "ocr_needed ''image'' (Some ''ID 42'')
   \<and> text_with_ocr id_card_env ''id.jpg'' \<lparr>world = (), calls = []\<rparr>
       = (Inr (''image'', Some (''ID 42'' @ [CHR 0x0A, CHR 0x0A] @ ''JOHN DOE'')),
          \<lparr>world = (), calls = [GetDocumentType ''id.jpg'', ExtractText ''id.jpg'' ''image'',
                               PerformOcr ''id.jpg'' ''image'']\<rparr>)
   \<and> filter is_AnalyzeDocument id_card_calls
       = [AnalyzeDocument (''ID 42'' @ [CHR 0x0A, CHR 0x0A] @ ''JOHN DOE'')]"
proof -
  let ?s1 = "\<lparr>world = (), calls = [GetDocumentType ''id.jpg'', ExtractText ''id.jpg'' ''image'']\<rparr>
               :: (nat, unit) pstate"
  have de: "detect_and_extract id_card_env ''id.jpg'' \<lparr>world = (), calls = []\<rparr>
              = (Inr (''image'', Some ''ID 42''), ?s1)"
    by code_simp
  have need: "ocr_needed ''image'' (Some ''ID 42'')"
    by code_simp
  have ocr: "perform_ocr id_card_env ''id.jpg'' ''image'' (world ?s1) = (Inr (Some ''JOHN DOE''), ())"
    by (simp add: id_card_env_def)
  have ne: "''JOHN DOE'' \<noteq> []" by simp
  have run: "process id_card_env ''id.jpg'' False ()
               = (Returned id_card_result, \<lparr>world = (), calls = id_card_calls\<rparr>)"
    by code_simp
  have merged: "''ID 42'' @ [CHR 0x0A, CHR 0x0A] @ ''JOHN DOE''
      = (case Some ''ID 42'' of None \<Rightarrow> ''JOHN DOE''
         | Some t \<Rightarrow> if t = [] then ''JOHN DOE'' else t @ [CHR 0x0A, CHR 0x0A] @ ''JOHN DOE'')"
    by simp
  have one: "filter is_AnalyzeDocument id_card_calls
               = [AnalyzeDocument (''ID 42'' @ [CHR 0x0A, CHR 0x0A] @ ''JOHN DOE'')]"
    by (simp add: id_card_calls_def)
  from ocr_text_is_appended [OF de need ocr ne run merged] need one show ?thesis
    by simp
qed

section \<open>Documents without text\<close>

lemma merge_image_analysis_api_true:
  "merge_image_analysis ia da (PBool True) = Inr (da', api') \<Longrightarrow> api' = PBool True"
  by (auto simp: merge_image_analysis_def py_or_def Let_def
           split: if_splits pyval.splits option.splits)

lemma analyze_faces_api_true:
  "analyze_faces env fs da (PBool True) s = (Inr (da', api'), s') \<Longrightarrow> api' = PBool True"
proof (induction fs arbitrary: da s)
  case Nil
  then show ?case by simp
next
  case (Cons face rest)
  then show ?case
    by (auto split: prod.splits sum.splits dest: merge_image_analysis_api_true)
qed

lemma face_analysis_stage_api_true:
  "face_analysis_stage env skip fs da (PBool True) s = (Inr (da', api'), s') \<Longrightarrow> api' = PBool True"
  by (auto simp: face_analysis_stage_def ret_def throw_def
           split: sum.splits if_splits dest: analyze_faces_api_true)

lemma text_analysis_stage_no_text:
  "tx = None \<or> tx = Some [] \<Longrightarrow> text_analysis_stage env tx s = (Inr (fmempty, PBool True), s)"
  by (auto simp: text_analysis_stage_def ret_def)

text \<open>
  C9.  When neither native extraction nor OCR produced any text, \<open>analyze_document\<close> is
  not called, and a successful result has \<open>extracted_info.api_available = True\<close>, also
  when the image analyzer was called and reported \<open>False\<close>.
\<close>

theorem no_text_keeps_api_available_true:
  assumes two: "text_with_ocr env fp \<lparr>world = w, calls = []\<rparr> = (Inr (dt, tx), s2)"
      and empty: "tx = None \<or> tx = Some []"
      and run: "process env fp skip w = (out, s)"
  shows "filter is_AnalyzeDocument (calls s) = []
       \<and> (\<forall>r. out = Returned r \<and> fmlookup r ''success'' = Some (PBool True) \<longrightarrow>
              (\<exists>ei. fmlookup r ''extracted_info'' = Some (PDict ei)
                   \<and> fmlookup ei ''api_available'' = Some (PBool True)))"
proof -
  let ?s0 = "\<lparr>world = w, calls = []\<rparr> :: ('a, 'b) pstate"
  from run obtain res where body: "process_body env fp skip ?s0 = (res, s)"
    by (blast dest: process_final_state)
  with two have rest: "after_ocr env fp skip dt tx s2 = (res, s)"
    by (simp add: process_body_after_ocr and_then_def)
  from text_with_ocr_no_analysis [OF two] after_ocr_analyze_document [OF rest] empty
  have calls: "filter is_AnalyzeDocument (calls s) = []"
    by (auto simp: sel_def)
  have api: "\<exists>ei. fmlookup r ''extracted_info'' = Some (PDict ei)
                \<and> fmlookup ei ''api_available'' = Some (PBool True)"
    if out: "out = Returned r" and ok: "fmlookup r ''success'' = Some (PBool True)" for r
  proof -
    from run out ok have "process_body env fp skip ?s0 = (Inr r, s)"
      by (blast dest: process_success)
    then obtain dt' faces da api s4 da' api' enc
      where pre: "extraction_and_text_analysis env fp skip ?s0 = (Inr (dt', faces, da, api), s4)"
        and fa: "face_analysis_stage env skip faces da api s4 = (Inr (da', api'), s)"
        and r: "r = success_result dt' da' api' faces enc"
      by (blast dest: process_body_Inr)
    from pre obtain tx' s2' s3
      where two': "text_with_ocr env fp ?s0 = (Inr (dt', tx'), s2')"
        and ta: "text_analysis_stage env tx' s3 = (Inr (da, api), s4)"
      by (blast dest: extraction_Inr)
    from two two' have "tx' = tx" by simp
    with ta text_analysis_stage_no_text [OF empty, of env s3] have "api = PBool True"
      by simp
    with fa have "api' = PBool True"
      by (blast dest: face_analysis_stage_api_true)
    with r show ?thesis by (simp add: success_result_def)
  qed
  from calls api show ?thesis by blast
qed

theorem no_text_keeps_api_available_true_witness:
  "text_with_ocr blank_page_env ''blank.jpg'' \<lparr>world = (), calls = []\<rparr>
     = (Inr (''image'', Some []),
        \<lparr>world = (), calls = [GetDocumentType ''blank.jpg'', ExtractText ''blank.jpg'' ''image'',
                             PerformOcr ''blank.jpg'' ''image'']\<rparr>)
   \<and> process blank_page_env ''blank.jpg'' False ()
     = (Returned blank_page_result, \<lparr>world = (), calls = blank_page_calls\<rparr>)
   \<and> fmlookup blank_page_result ''success'' = Some (PBool True)
   \<and> filter is_AnalyzeDocument blank_page_calls = []
   \<and> (\<exists>ei. fmlookup blank_page_result ''extracted_info'' = Some (PDict ei)
           \<and> fmlookup ei ''api_available'' = Some (PBool True))"
proof -
  have two: "text_with_ocr blank_page_env ''blank.jpg'' \<lparr>world = (), calls = []\<rparr>
     = (Inr (''image'', Some []),
        \<lparr>world = (), calls = [GetDocumentType ''blank.jpg'', ExtractText ''blank.jpg'' ''image'',
                             PerformOcr ''blank.jpg'' ''image'']\<rparr>)"
    by code_simp
  have empty: "Some [] = None \<or> Some [] = Some ([] :: string)"
    by simp
  have run: "process blank_page_env ''blank.jpg'' False ()
     = (Returned blank_page_result, \<lparr>world = (), calls = blank_page_calls\<rparr>)"
    by code_simp
  have ok: "fmlookup blank_page_result ''success'' = Some (PBool True)"
    by (simp add: blank_page_result_def)
  from no_text_keeps_api_available_true [OF two empty run] two run ok show ?thesis
    by simp
qed

section \<open>The face-image fallback\<close>

lemma keeps_extraction_and_text_analysis:
  "(\<And>a. \<not> P (GetDocumentType a)) \<Longrightarrow> (\<And>a b. \<not> P (ExtractText a b)) \<Longrightarrow>
   (\<And>a b. \<not> P (PerformOcr a b)) \<Longrightarrow> (\<And>a b. \<not> P (ExtractImages a b)) \<Longrightarrow>
   (\<And>i. \<not> P (ExtractFaces i)) \<Longrightarrow> (\<And>t. \<not> P (AnalyzeDocument t)) \<Longrightarrow>
   keeps P (extraction_and_text_analysis env fp skip)"
  unfolding extraction_and_text_analysis_def
  by (auto intro!: keeps_and_then keeps_ret keeps_text_with_ocr keeps_faces_stage
        keeps_text_analysis_stage)

lemma face_analysis_stage_calls:
  "face_analysis_stage env skip faces da api s4 = (r, s5) \<Longrightarrow>
   calls s5 = calls s4 @ (if need_face_analysis skip faces da = Inr True
                          then [AnalyzeImageContent (hd faces)] else [])"
  by (cases faces)
     (auto simp: face_analysis_stage_def need_face_analysis_def invoke_def ret_def throw_def
           split: sum.splits prod.splits if_splits pyval.splits)

lemma need_face_analysis_iff:
  "need_face_analysis skip faces da = Inr True \<longleftrightarrow>
     \<not> skip \<and> faces \<noteq> []
     \<and> (\<not> truthy (dict_get da ''structured_info'' PNone)
        \<or> (\<exists>si. fmlookup da ''structured_info'' = Some (PDict si)
                \<and> \<not> truthy (dict_get si ''personal_info'' PNone)))"
  by (auto simp: need_face_analysis_def dict_get_def split: option.splits pyval.splits)

text \<open>
  C6, with the trigger as Python evaluates it.  Once the faces and the text analysis are
  known, \<open>analyze_image_content\<close> is called exactly once, on the first face, when
  \<open>skip_faces\<close> is false, there is at least one face, and \<open>structured_info\<close> is missing
  or falsy (\<open>None\<close>, empty) or is a dict whose \<open>personal_info\<close> is missing or falsy
  (present but empty counts); otherwise it is not called.
\<close>

theorem face_analysis_runs_iff:
  assumes pre: "extraction_and_text_analysis env fp skip \<lparr>world = w, calls = []\<rparr>
                  = (Inr (dt, faces, da, api), s4)"
      and run: "process env fp skip w = (out, s)"
  shows "filter is_AnalyzeImageContent (calls s) =
           (if \<not> skip \<and> faces \<noteq> []
               \<and> (\<not> truthy (dict_get da ''structured_info'' PNone)
                  \<or> (\<exists>si. fmlookup da ''structured_info'' = Some (PDict si)
                          \<and> \<not> truthy (dict_get si ''personal_info'' PNone)))
            then [AnalyzeImageContent (hd faces)] else [])"
proof -
  let ?s0 = "\<lparr>world = w, calls = []\<rparr> :: ('a, 'b) pstate"
  let ?P = "is_AnalyzeImageContent :: 'a call \<Rightarrow> bool"
  from run obtain res where body: "process_body env fp skip ?s0 = (res, s)"
    by (blast dest: process_final_state)
  with pre have rest: "after_text_analysis env skip dt faces da api s4 = (res, s)"
    by (simp add: process_body_after_text_analysis and_then_def)
  have "keeps ?P (extraction_and_text_analysis env fp skip)"
    by (rule keeps_extraction_and_text_analysis) simp_all
  from keepsD [OF this pre] have s4: "sel ?P s4 = []"
    by (simp add: sel_def)
  obtain r5 s5 where fa: "face_analysis_stage env skip faces da api s4 = (r5, s5)"
    by (cases "face_analysis_stage env skip faces da api s4")
  from face_analysis_stage_calls [OF fa] s4
  have s5: "sel ?P s5 = (if need_face_analysis skip faces da = Inr True
                         then [AnalyzeImageContent (hd faces)] else [])"
    by (simp add: sel_def)
  have "sel ?P s = sel ?P s5"
  proof (cases r5)
    case (Inl e)
    with rest fa have "s = s5" by (simp add: after_text_analysis_def and_then_def)
    then show ?thesis by simp
  next
    case (Inr p)
    obtain da' api' where p: "p = (da', api')" by (cases p)
    with Inr rest fa have asm: "assemble env dt da' api' faces s5 = (res, s)"
      by (simp add: after_text_analysis_def and_then_def)
    from keepsD [OF keeps_assemble asm] show ?thesis .
  qed
  with s5 show ?thesis
    by (simp add: sel_def need_face_analysis_iff)
qed

theorem face_analysis_runs_iff_witness:
  "extraction_and_text_analysis id_card_env ''id.jpg'' False \<lparr>world = (), calls = []\<rparr>
     = (Inr (''image'', id_card_faces, id_card_text_analysis, PBool False),
        \<lparr>world = (), calls = id_card_calls_before_faces\<rparr>)
   \<and> process id_card_env ''id.jpg'' False ()
     = (Returned id_card_result, \<lparr>world = (), calls = id_card_calls\<rparr>)
   \<and> length id_card_faces = 3
   \<and> filter is_AnalyzeImageContent id_card_calls = [AnalyzeImageContent (PBytes ''ZmFjZTE='')]"
proof -
  have pre: "extraction_and_text_analysis id_card_env ''id.jpg'' False \<lparr>world = (), calls = []\<rparr>
     = (Inr (''image'', id_card_faces, id_card_text_analysis, PBool False),
        \<lparr>world = (), calls = id_card_calls_before_faces\<rparr>)"
    by code_simp
  have run: "process id_card_env ''id.jpg'' False ()
               = (Returned id_card_result, \<lparr>world = (), calls = id_card_calls\<rparr>)"
    by code_simp
  have one: "filter is_AnalyzeImageContent id_card_calls
               = [AnalyzeImageContent (PBytes ''ZmFjZTE='')]"
    by (simp add: id_card_calls_def)
  from face_analysis_runs_iff [OF pre run] pre run one show ?thesis
    by (simp add: id_card_faces_def)
qed

text \<open>
  A text analysis whose \<open>structured_info\<close> has a \<open>personal_info\<close> subsection that is
  present but empty: \<open>not {}\<close> is true at line 87, and the fallback runs all the same.
\<close>

theorem empty_personal_info_runs_fallback:
  "extraction_and_text_analysis empty_personal_info_env ''id.jpg'' False \<lparr>world = (), calls = []\<rparr>
     = (Inr (''image'', id_card_faces,
             fmap_of_list
               [(''api_available'', PBool True),
                (''structured_info'', PDict (fmap_of_list [(''personal_info'', PDict fmempty)]))],
             PBool True),
        \<lparr>world = (), calls = id_card_calls_before_faces\<rparr>)
   \<and> filter is_AnalyzeImageContent
         (calls (snd (process empty_personal_info_env ''id.jpg'' False ())))
     = [AnalyzeImageContent (PBytes ''ZmFjZTE='')]"
  by code_simp

lemma merge_image_analysis_success:
  assumes succ: "truthy (dict_get ia ''success'' PNone)"
      and existing: "fmlookup da ''structured_info'' = None \<and> si = fmempty
                   \<or> fmlookup da ''structured_info'' = Some (PDict si)"
      and fields: "isi = (case fmlookup ia ''structured_info'' of
                            Some (PDict m) \<Rightarrow> m | _ \<Rightarrow> fmempty)"
  shows "merge_image_analysis (PDict ia) da api =
           Inr (fmupd ''structured_info'' (PDict (si ++\<^sub>f isi)) da,
                py_or api (dict_get ia ''api_available'' (PBool False)))"
proof -
  from succ have ne: "ia \<noteq> fmempty"
    by (auto simp: dict_get_def)
  have same: "fmupd ''structured_info'' (PDict si) da = da"
    if "fmlookup da ''structured_info'' = Some (PDict si)"
    using that by (intro fmap_ext) auto
  from existing show ?thesis
  proof
    assume a: "fmlookup da ''structured_info'' = None \<and> si = fmempty"
    then have "''structured_info'' |\<notin>| fmdom da"
      by (simp add: fmdom_notI)
    with a succ ne fields show ?thesis
      by (auto simp: merge_image_analysis_def Let_def split: option.splits pyval.splits)
  next
    assume a: "fmlookup da ''structured_info'' = Some (PDict si)"
    then have "''structured_info'' |\<in>| fmdom da"
      by (simp add: fmdomI)
    with a succ ne fields same [OF a] show ?thesis
      by (auto simp: merge_image_analysis_def Let_def split: option.splits pyval.splits)
  qed
qed

text \<open>
  The merge of lines 95--105, for a text analysis whose \<open>structured_info\<close> is absent
  or a dict: when the face-image analysis runs and succeeds, the result's
  \<open>structured_info\<close> is the existing one updated with the image analysis's (a key of the
  image analysis has the image analysis's value, any other key keeps its value), and with
  boolean outcomes \<open>api_available\<close> is their disjunction.
\<close>

lemma image_analysis_is_merged:
  assumes pre: "extraction_and_text_analysis env fp skip \<lparr>world = w, calls = []\<rparr>
                  = (Inr (dt, face # rest, da, api), s4)"
      and need: "need_face_analysis skip (face # rest) da = Inr True"
      and img: "analyze_image_content env face (world s4) = (Inr (PDict ia), w5)"
      and succ: "truthy (dict_get ia ''success'' PNone)"
      and existing: "fmlookup da ''structured_info'' = None \<and> si = fmempty
                   \<or> fmlookup da ''structured_info'' = Some (PDict si)"
      and fields: "isi = (case fmlookup ia ''structured_info'' of
                            Some (PDict m) \<Rightarrow> m | _ \<Rightarrow> fmempty)"
      and text_api: "api = PBool b1"
      and image_api: "dict_get ia ''api_available'' (PBool False) = PBool b2"
      and enc: "encode_faces env (face # rest) = Inr enc"
  shows "\<exists>r s ei merged.
           process env fp skip w = (Returned r, s)
         \<and> fmlookup r ''success'' = Some (PBool True)
         \<and> fmlookup r ''extracted_info'' = Some (PDict ei)
         \<and> fmlookup ei ''structured_info'' = Some (PDict merged)
         \<and> (\<forall>k. fmlookup merged k =
                  (case fmlookup isi k of Some v \<Rightarrow> Some v | None \<Rightarrow> fmlookup si k))
         \<and> fmlookup ei ''api_available'' = Some (PBool (b1 \<or> b2))"
proof -
  let ?s0 = "\<lparr>world = w, calls = []\<rparr> :: ('a, 'b) pstate"
  let ?s5 = "\<lparr>world = w5, calls = calls s4 @ [AnalyzeImageContent face]\<rparr>"
  let ?da = "fmupd ''structured_info'' (PDict (si ++\<^sub>f isi)) da"
  let ?r = "success_result dt ?da (PBool (b1 \<or> b2)) (face # rest) enc"
  have api: "py_or api (dict_get ia ''api_available'' (PBool False)) = PBool (b1 \<or> b2)"
    using text_api image_api by (simp add: py_or_def)
  from merge_image_analysis_success [OF succ existing fields, of api] api
  have m: "merge_image_analysis (PDict ia) da api = Inr (?da, PBool (b1 \<or> b2))"
    by simp
  have fa: "face_analysis_stage env skip (face # rest) da api s4
              = (Inr (?da, PBool (b1 \<or> b2)), ?s5)"
    using need img m by (simp add: face_analysis_stage_def invoke_def)
  have body: "process_body env fp skip ?s0 = (Inr ?r, ?s5)"
    using pre fa enc by (simp add: process_body_def and_then_def assemble_def ret_def)
  then have run: "process env fp skip w = (Returned ?r, ?s5)"
    by (simp add: process_def)
  have look: "fmlookup (si ++\<^sub>f isi) k =
                (case fmlookup isi k of Some v \<Rightarrow> Some v | None \<Rightarrow> fmlookup si k)" for k
    by (auto simp: fmlookup_dom_iff split: option.splits)
  let ?ei = "fmupd ''api_available'' (PBool (b1 \<or> b2)) ?da"
  have "fmlookup ?r ''success'' = Some (PBool True)"
   and "fmlookup ?r ''extracted_info'' = Some (PDict ?ei)"
   and "fmlookup ?ei ''structured_info'' = Some (PDict (si ++\<^sub>f isi))"
   and "fmlookup ?ei ''api_available'' = Some (PBool (b1 \<or> b2))"
    by (simp_all add: success_result_def)
  with run look show ?thesis by blast
qed

lemma image_analysis_is_merged_example:
  "need_face_analysis False id_card_faces id_card_text_analysis = Inr True
   \<and> process id_card_env ''id.jpg'' False ()
     = (Returned id_card_result, \<lparr>world = (), calls = id_card_calls\<rparr>)
   \<and> (\<exists>ei merged.
         fmlookup id_card_result ''extracted_info'' = Some (PDict ei)
       \<and> fmlookup ei ''structured_info'' = Some (PDict merged)
       \<and> fmlookup merged ''name'' = Some (PStr ''JOHN DOE'')
       \<and> fmlookup merged ''id_number'' = Some (PStr ''42'')
       \<and> fmlookup ei ''api_available'' = Some (PBool True))"
proof -
  let ?face = "PBytes ''ZmFjZTE=''"
  let ?rest = "[PStr ''ZmFjZTI='', PStr ''ZmFjZTM='']"
  let ?s4 = "\<lparr>world = (), calls = id_card_calls_before_faces\<rparr>"
  let ?si = "fmap_of_list [(''id_number'', PStr ''42''), (''name'', PStr ''J DOE'')]"
  let ?isi = "fmap_of_list [(''name'', PStr ''JOHN DOE'')]"
  have pre: "extraction_and_text_analysis id_card_env ''id.jpg'' False \<lparr>world = (), calls = []\<rparr>
     = (Inr (''image'', ?face # ?rest, id_card_text_analysis, PBool False), ?s4)"
    by code_simp
  have need: "need_face_analysis False (?face # ?rest) id_card_text_analysis = Inr True"
    by code_simp
  have img: "analyze_image_content id_card_env ?face (world ?s4)
               = (Inr (PDict id_card_image_analysis), ())"
    by (simp add: id_card_env_def id_card_image_analysis_def)
  have succ: "truthy (dict_get id_card_image_analysis ''success'' PNone)"
    by (simp add: id_card_image_analysis_def dict_get_def)
  have existing: "fmlookup id_card_text_analysis ''structured_info'' = None \<and> ?si = fmempty
                \<or> fmlookup id_card_text_analysis ''structured_info'' = Some (PDict ?si)"
    by (simp add: id_card_text_analysis_def)
  have fields: "?isi = (case fmlookup id_card_image_analysis ''structured_info'' of
                          Some (PDict m) \<Rightarrow> m | _ \<Rightarrow> fmempty)"
    by (simp add: id_card_image_analysis_def)
  have text_api: "PBool False = PBool False"
    by simp
  have image_api: "dict_get id_card_image_analysis ''api_available'' (PBool False) = PBool True"
    by (simp add: id_card_image_analysis_def dict_get_def)
  have enc: "encode_faces id_card_env (?face # ?rest)
               = Inr [PStr ''ZmFjZTE='', PStr ''ZmFjZTI='', PStr ''ZmFjZTM='']"
    by (simp add: id_card_env_def)
  have run: "process id_card_env ''id.jpg'' False ()
               = (Returned id_card_result, \<lparr>world = (), calls = id_card_calls\<rparr>)"
    by code_simp
  from image_analysis_is_merged [OF pre need img succ existing fields text_api image_api enc]
  obtain r s ei merged
    where r: "process id_card_env ''id.jpg'' False () = (Returned r, s)"
      and ei: "fmlookup r ''extracted_info'' = Some (PDict ei)"
      and si: "fmlookup ei ''structured_info'' = Some (PDict merged)"
      and look: "\<And>k. fmlookup merged k =
                  (case fmlookup ?isi k of Some v \<Rightarrow> Some v | None \<Rightarrow> fmlookup ?si k)"
      and api: "fmlookup ei ''api_available'' = Some (PBool (False \<or> True))"
    by blast
  from r run have "r = id_card_result" by simp
  with ei si look [of "''name''"] look [of "''id_number''"] api need run show ?thesis
    by (auto simp: id_card_faces_def)
qed

text \<open>
  C7.  A successful face-image analysis is to be merged into the existing
  \<open>structured_info\<close>.  Here the text analyzer returned
  \<open>{api_available: False, structured_info: None}\<close>.  Line 86 takes the \<open>None\<close> for
  "no structured info" and runs the fallback, the image analysis succeeds with a
  \<open>structured_info\<close> dict, line 97 finds the key present and leaves the \<open>None\<close> in place,
  and line 102 calls \<open>.update\<close> on it: \<open>process\<close> returns the failure dict with the
  message of the \<open>AttributeError\<close> instead of the merged result.
\<close>

theorem null_structured_info_is_fatal:
  "process null_structured_info_env ''id.jpg'' False () =
     (Returned
        (fmap_of_list
           [(''success'', PBool False),
            (''error'',
             PStr (quoted ''NoneType'' @ '' object has no attribute '' @ quoted ''update''))]),
      \<lparr>world = (), calls = id_card_calls\<rparr>)"
  by code_simp

section \<open>Unavailable analyzers\<close>

lemma need_face_analysis_well_formed:
  assumes "fmlookup d ''structured_info'' = None
         \<or> (\<exists>si. fmlookup d ''structured_info'' = Some (PDict si))"
  shows "\<exists>b. need_face_analysis skip faces d = Inr b"
  using assms by (auto simp: need_face_analysis_def dict_get_def)

lemma merge_image_analysis_unavailable:
  assumes "fmlookup d ''structured_info'' = None
         \<or> (\<exists>si. fmlookup d ''structured_info'' = Some (PDict si))"
      and "reports_unavailable v"
  shows "\<exists>da'. merge_image_analysis v d (PBool False) = Inr (da', PBool False)"
proof -
  from assms(2) obtain m where v: "v = PDict m"
    and api: "dict_get m ''api_available'' (PBool False) = PBool False"
    by (auto simp: reports_unavailable_def split: pyval.splits)
  from assms(1) show ?thesis
  proof
    assume "fmlookup d ''structured_info'' = None"
    then have "''structured_info'' |\<notin>| fmdom d" by (simp add: fmdom_notI)
    with v api show ?thesis
      by (auto simp: merge_image_analysis_def Let_def py_or_def split: option.splits pyval.splits)
  next
    assume "\<exists>si. fmlookup d ''structured_info'' = Some (PDict si)"
    then obtain si where si: "fmlookup d ''structured_info'' = Some (PDict si)" ..
    then have "''structured_info'' |\<in>| fmdom d" by (simp add: fmdomI)
    with si v api show ?thesis
      by (auto simp: merge_image_analysis_def Let_def py_or_def split: option.splits pyval.splits)
  qed
qed

lemma face_analysis_stage_unavailable:
  assumes wf: "fmlookup d ''structured_info'' = None
             \<or> (\<exists>si. fmlookup d ''structured_info'' = Some (PDict si))"
      and ia: "\<forall>f w. \<exists>v w'. analyze_image_content env f w = (Inr v, w') \<and> reports_unavailable v"
  shows "\<exists>da' s5. face_analysis_stage env skip faces d (PBool False) s4
                    = (Inr (da', PBool False), s5)"
proof -
  from need_face_analysis_well_formed [OF wf]
  obtain b where b: "need_face_analysis skip faces d = Inr b" by blast
  show ?thesis
  proof (cases b)
    case False
    with b show ?thesis by (simp add: face_analysis_stage_def ret_def)
  next
    case True
    with b have "faces \<noteq> []"
      by (auto simp: need_face_analysis_def split: if_splits)
    then obtain f rest where faces: "faces = f # rest" by (cases faces) auto
    from ia obtain v w5 where img: "analyze_image_content env f (world s4) = (Inr v, w5)"
      and un: "reports_unavailable v" by blast
    from merge_image_analysis_unavailable [OF wf un]
    obtain da' where "merge_image_analysis v d (PBool False) = Inr (da', PBool False)" ..
    with b True faces img show ?thesis
      by (simp add: face_analysis_stage_def invoke_def)
  qed
qed

text \<open>
  C3, for documents with text.  When text is present, the extraction stages do not raise, and both
  analyzers report unavailability without raising, \<open>process\<close> returns a successful
  result whose \<open>extracted_info.api_available\<close> is \<open>False\<close>.
\<close>

theorem unavailable_analyzers_not_fatal:
  assumes two: "text_with_ocr env fp \<lparr>world = w, calls = []\<rparr> = (Inr (dt, Some t), s2)"
      and present: "t \<noteq> []"
      and fs: "faces_stage env fp dt skip s2 = (Inr faces, s3)"
      and enc: "encode_faces env faces = Inr enc"
      and ta: "\<forall>t w. \<exists>d w'. analyze_document env t w = (Inr (PDict d), w')
                 \<and> reports_unavailable (PDict d)
                 \<and> (fmlookup d ''structured_info'' = None
                    \<or> (\<exists>si. fmlookup d ''structured_info'' = Some (PDict si)))"
      and ia: "\<forall>f w. \<exists>v w'. analyze_image_content env f w = (Inr v, w') \<and> reports_unavailable v"
  shows "\<exists>r s ei. process env fp skip w = (Returned r, s)
           \<and> fmlookup r ''success'' = Some (PBool True)
           \<and> fmlookup r ''extracted_info'' = Some (PDict ei)
           \<and> fmlookup ei ''api_available'' = Some (PBool False)"
proof -
  let ?s0 = "\<lparr>world = w, calls = []\<rparr> :: ('a, 'b) pstate"
  from ta obtain d w4
    where doc: "analyze_document env t (world s3) = (Inr (PDict d), w4)"
      and un: "reports_unavailable (PDict d)"
      and wf: "fmlookup d ''structured_info'' = None
             \<or> (\<exists>si. fmlookup d ''structured_info'' = Some (PDict si))"
    by blast
  let ?s4 = "\<lparr>world = w4, calls = calls s3 @ [AnalyzeDocument t]\<rparr>"
  from un have api: "dict_get d ''api_available'' (PBool False) = PBool False"
    by (simp add: reports_unavailable_def)
  have "text_analysis_stage env (Some t) s3 = (Inr (d, PBool False), ?s4)"
    using present doc api
    by (simp add: text_analysis_stage_def and_then_def invoke_def ret_def)
  with two fs
  have pre: "extraction_and_text_analysis env fp skip ?s0 = (Inr (dt, faces, d, PBool False), ?s4)"
    by (simp add: extraction_and_text_analysis_def and_then_def ret_def)
  from face_analysis_stage_unavailable [OF wf ia, of skip faces ?s4]
  obtain da' s5
    where fa: "face_analysis_stage env skip faces d (PBool False) ?s4 = (Inr (da', PBool False), s5)"
    by blast
  let ?r = "success_result dt da' (PBool False) faces enc"
  have "process_body env fp skip ?s0 = (Inr ?r, s5)"
    using pre fa enc by (simp add: process_body_def and_then_def assemble_def ret_def)
  then have run: "process env fp skip w = (Returned ?r, s5)"
    by (simp add: process_def)
  have "fmlookup ?r ''success'' = Some (PBool True)"
   and "fmlookup ?r ''extracted_info'' = Some (PDict (fmupd ''api_available'' (PBool False) da'))"
   and "fmlookup (fmupd ''api_available'' (PBool False) da') ''api_available'' = Some (PBool False)"
    by (simp_all add: success_result_def)
  with run show ?thesis by blast
qed

theorem unavailable_analyzers_not_fatal_witness:
  "process offline_env ''id.jpg'' False ()
     = (Returned offline_result, \<lparr>world = (), calls = id_card_calls\<rparr>)
   \<and> fmlookup offline_result ''success'' = Some (PBool True)
   \<and> (\<exists>ei. fmlookup offline_result ''extracted_info'' = Some (PDict ei)
           \<and> fmlookup ei ''api_available'' = Some (PBool False))"
proof -
  let ?s2 = "\<lparr>world = (), calls = [GetDocumentType ''id.jpg'', ExtractText ''id.jpg'' ''image'',
                                   PerformOcr ''id.jpg'' ''image'']\<rparr> :: (nat, unit) pstate"
  let ?s3 = "\<lparr>world = (), calls = [GetDocumentType ''id.jpg'', ExtractText ''id.jpg'' ''image'',
                                   PerformOcr ''id.jpg'' ''image'', ExtractImages ''id.jpg'' ''image'',
                                   ExtractFaces 0]\<rparr> :: (nat, unit) pstate"
  have two: "text_with_ocr offline_env ''id.jpg'' \<lparr>world = (), calls = []\<rparr>
               = (Inr (''image'', Some (''ID 42'' @ [CHR 0x0A, CHR 0x0A] @ ''JOHN DOE'')), ?s2)"
    by code_simp
  have present: "''ID 42'' @ [CHR 0x0A, CHR 0x0A] @ ''JOHN DOE'' \<noteq> []"
    by simp
  have fs: "faces_stage offline_env ''id.jpg'' ''image'' False ?s2 = (Inr id_card_faces, ?s3)"
    by code_simp
  have enc: "encode_faces offline_env id_card_faces
               = Inr [PStr ''ZmFjZTE='', PStr ''ZmFjZTI='', PStr ''ZmFjZTM='']"
    by (simp add: offline_env_def id_card_env_def id_card_faces_def)
  have ta: "\<forall>t w. \<exists>d w'. analyze_document offline_env t w = (Inr (PDict d), w')
              \<and> reports_unavailable (PDict d)
              \<and> (fmlookup d ''structured_info'' = None
                 \<or> (\<exists>si. fmlookup d ''structured_info'' = Some (PDict si)))"
    by (simp add: offline_env_def id_card_env_def reports_unavailable_def dict_get_def)
  have ia: "\<forall>f w. \<exists>v w'. analyze_image_content offline_env f w = (Inr v, w')
              \<and> reports_unavailable v"
    by (simp add: offline_env_def id_card_env_def reports_unavailable_def dict_get_def)
  have run: "process offline_env ''id.jpg'' False ()
               = (Returned offline_result, \<lparr>world = (), calls = id_card_calls\<rparr>)"
    by code_simp
  from unavailable_analyzers_not_fatal [OF two present fs enc ta ia]
  obtain r s ei
    where r: "process offline_env ''id.jpg'' False () = (Returned r, s)"
      and ok: "fmlookup r ''success'' = Some (PBool True)"
      and ei: "fmlookup r ''extracted_info'' = Some (PDict ei)"
      and api: "fmlookup ei ''api_available'' = Some (PBool False)"
    by blast
  from r run have "r = offline_result" by simp
  with ok ei api run show ?thesis by blast
qed

text \<open>
  Without any text the text analyzer is never asked, and \<open>api_available\<close> keeps its
  initial value \<open>True\<close> although both analyzers report unavailability.
\<close>

theorem unavailable_analyzers_without_text:
  "process offline_blank_env ''id.jpg'' False () =
     (Returned
        (fmap_of_list
           [(''document_type'', PStr ''image''),
            (''extracted_info'', PDict (fmap_of_list [(''api_available'', PBool True)])),
            (''face_count'', PInt 3),
            (''face_images'', PList [PStr ''ZmFjZTE='', PStr ''ZmFjZTI='', PStr ''ZmFjZTM='']),
            (''success'', PBool True)]),
      \<lparr>world = (),
        calls = [GetDocumentType ''id.jpg'', ExtractText ''id.jpg'' ''image'',
                 PerformOcr ''id.jpg'' ''image'', ExtractImages ''id.jpg'' ''image'',
                 ExtractFaces 0, AnalyzeImageContent (PBytes ''ZmFjZTE='')]\<rparr>)"
  by code_simp

end
